theory Spec2Isabelle
  imports Main "HOL-Library.Sublist"
begin

section \<open>JavaScript values, errors and strings\<close>

text \<open>
  Strings are lists of characters. The two non-ASCII signs of the source (the cross
  mark and the check mark of the final messages) are written as their UTF-8 bytes.

  \<open>jsval\<close> is the value \<open>YAML.parse\<close> hands back: the manifest is untyped (\<open>any\<close>) in
  the source, so a property may be absent (\<open>undefined\<close>) or hold any value.
\<close>

datatype jsval =
    JUndefined
  | JNull
  | JBool bool
  | JNum int
  | JStr string
  | JArr "jsval list"
  | JObj "(string \<times> jsval) list"

text \<open>A thrown value: an \<open>Error\<close> object with its \<open>name\<close> and its \<open>message\<close>.\<close>

datatype js_error = JsError (err_name: string) (err_message: string)

definition Error :: "string \<Rightarrow> js_error" where
  "Error msg = JsError ''Error'' msg"

text \<open>\<open>Error.prototype.toString\<close>, which the template literal of the catch block calls.\<close>

definition toString :: "js_error \<Rightarrow> string" where
  "toString e =
     (if err_name e = [] then err_message e
      else if err_message e = [] then err_name e
      else err_name e @ '': '' @ err_message e)"

text \<open>\<open>String.prototype.endsWith\<close>.\<close>

definition endsWith :: "string \<Rightarrow> string \<Rightarrow> bool" where
  "endsWith s searchString =
     (length searchString \<le> length s \<and>
      drop (length s - length searchString) s = searchString)"

text \<open>Truthiness of a \<open>string | undefined\<close>: \<open>undefined\<close> and the empty string are falsy.\<close>

fun truthy :: "string option \<Rightarrow> bool" where
  "truthy None = False"
| "truthy (Some s) = (s \<noteq> [])"

section \<open>Data of the two remote services\<close>

text \<open>\<open>repoInfo.data\<close>: only \<open>private\<close> is read.\<close>

record RepoData =
  repo_private :: bool

text \<open>\<open>releaseInfo.data\<close>: \<open>body\<close> and \<open>name\<close> may be \<open>null\<close>.\<close>

record ReleaseData =
  rel_body :: "string option"
  rel_tag_name :: string
  rel_html_url :: string
  rel_name :: "string option"
  rel_prerelease :: bool

record ReleaseNote =
  note_html :: string
  note_markdown :: string

record CommonManifest =
  requires :: jsval
  version :: jsval

text \<open>The body of the release-creation request, field by field.\<close>

record Metadata =
  generateName :: string
  metadata_name :: string

record ReleaseSpec =
  applicationName :: string
  displayName :: "string option"
  draft :: bool
  ownerName :: string
  preRelease :: bool
  spec_requires :: jsval
  spec_version :: jsval
  notesName :: string

record Release =
  release_apiVersion :: string
  release_kind :: string
  release_metadata :: Metadata
  release_spec :: ReleaseSpec

record Notes =
  notes_apiVersion :: string
  notes_html :: string
  notes_kind :: string
  notes_metadata :: Metadata
  rawType :: string
  raw :: string

record ReleaseRequest =
  req_release :: Release
  req_notes :: Notes
  makeLatest :: bool

text \<open>
  The record the store answers with. The source reads \<open>appRelease.metadata.name\<close> and
  hands it to \<open>uploadAssets(releaseName: string, ...)\<close>; the answer is taken to have
  that shape.
\<close>

record AppRelease =
  appRelease_metadata_name :: string

text \<open>The multipart payload of one upload: the two fields appended to the form.\<close>

record UploadForm =
  form_releaseName :: string
  form_file :: string

section \<open>The world the action runs in\<close>

text \<open>
  An archive is what \<open>zip.getEntry\<close> answers for a name: no entry, or an entry whose
  \<open>getData().toString("utf8")\<close> throws or gives the decoded text.
\<close>

type_synonym archive = "string \<Rightarrow> (js_error + string) option"

text \<open>
  Inputs (\<open>getInput\<close>, \<open>github.context\<close>) and the answers of everything outside the
  program: the GitHub API, the file system, the libraries, the store API. A failing
  call answers \<open>Inl\<close> with the error it throws or rejects with.
  \<^item> The inputs are strings; an absent input reads as the empty string. The module's
    first lines (reading them, building the octokit client) have run, and
    \<open>github.context.repo\<close> gives an owner and a repository name, as in any workflow run.
  \<^item> \<open>repos_getRelease\<close> receives the release id as the input string; the conversion
    \<open>Number(releaseId)\<close> is part of the call.
  \<^item> \<open>fs_existsSync\<close> and \<open>fs_readdirSync\<close> are independent: a listed name need not
    exist when it is checked later.
  \<^item> \<open>path_join\<close> is \<open>path.join\<close>; nothing is assumed of it.
  \<^item> \<open>type_error_message v k\<close> is the engine's text for reading property \<open>k\<close> of
    \<open>v\<close> when \<open>v\<close> is \<open>undefined\<close> or \<open>null\<close>.
  \<^item> \<open>apiClient_post_upload i\<close> is the answer to the upload of the asset at index
    \<open>i\<close>, and \<open>settle_time i\<close> the moment that answer arrives.
\<close>

record world =
  appId :: string
  assetsDir :: string
  releaseId :: string
  context_owner :: string
  context_repo :: string
  repos_get :: "string \<Rightarrow> string \<Rightarrow> js_error + RepoData"
  repos_getRelease :: "string \<Rightarrow> string \<Rightarrow> string \<Rightarrow> js_error + ReleaseData"
  markdown_render :: "string \<Rightarrow> string \<Rightarrow> string \<Rightarrow> js_error + string"
  fs_existsSync :: "string \<Rightarrow> bool"
  fs_readdirSync :: "string \<Rightarrow> js_error + string list"
  path_join :: "string \<Rightarrow> string \<Rightarrow> string"
  AdmZip :: "string \<Rightarrow> js_error + archive"
  YAML_parse :: "string \<Rightarrow> js_error + jsval"
  type_error_message :: "jsval \<Rightarrow> string \<Rightarrow> string"
  apiClient_post_release :: "string \<Rightarrow> ReleaseRequest \<Rightarrow> js_error + AppRelease"
  apiClient_post_upload :: "nat \<Rightarrow> string \<Rightarrow> UploadForm \<Rightarrow> js_error + unit"
  settle_time :: "nat \<Rightarrow> nat"

section \<open>Effects\<close>

text \<open>
  Every call that leaves the program is recorded, in the order the program makes it.
  The log lines (\<open>githubCore.info\<close>) are not recorded.
\<close>

datatype event =
    ReposGet string string
  | ReposGetRelease string string string
  | MarkdownRender string string string
  | ExistsSync string
  | ReaddirSync string
  | AdmZipOpen string
  | ZipGetEntry string
  | PostRelease string ReleaseRequest
  | PostUpload string UploadForm

fun is_network_call :: "event \<Rightarrow> bool" where
  "is_network_call (ReposGet _ _) = True"
| "is_network_call (ReposGetRelease _ _ _) = True"
| "is_network_call (MarkdownRender _ _ _) = True"
| "is_network_call (PostRelease _ _) = True"
| "is_network_call (PostUpload _ _) = True"
| "is_network_call _ = False"

fun is_store_call :: "event \<Rightarrow> bool" where
  "is_store_call (PostRelease _ _) = True"
| "is_store_call (PostUpload _ _) = True"
| "is_store_call _ = False"

fun is_archive_access :: "event \<Rightarrow> bool" where
  "is_archive_access (AdmZipOpen _) = True"
| "is_archive_access (ZipGetEntry _) = True"
| "is_archive_access _ = False"

text \<open>
  A computation gives its result (\<open>Inl\<close>: it threw) and the calls it made.
  \<open>bnd\<close> is sequencing (\<open>await\<close>, or the next statement): a throw skips the rest.
\<close>

type_synonym 'a eff = "(js_error + 'a) \<times> event list"

definition ret :: "'a \<Rightarrow> 'a eff" where
  "ret x = (Inr x, [])"

definition throw :: "js_error \<Rightarrow> 'a eff" where
  "throw e = (Inl e, [])"

text \<open>
  \<open>step\<close> is a step inside the program that may throw and calls nothing outside;
  \<open>call\<close> is a call outside the program, recorded with its answer.
\<close>

definition step :: "js_error + 'a \<Rightarrow> 'a eff" where
  "step r = (r, [])"

definition call :: "event \<Rightarrow> js_error + 'a \<Rightarrow> 'a eff" where
  "call ev answer = (answer, [ev])"

definition bnd :: "'a eff \<Rightarrow> ('a \<Rightarrow> 'b eff) \<Rightarrow> 'b eff" where
  "bnd m f =
     (case m of
        (Inl e, t) \<Rightarrow> (Inl e, t)
      | (Inr x, t) \<Rightarrow> (case f x of (r, t') \<Rightarrow> (r, t @ t')))"

text \<open>\<open>try { m } catch (error) { throw h(error) }\<close>.\<close>

definition catch_rethrow :: "'a eff \<Rightarrow> (js_error \<Rightarrow> js_error) \<Rightarrow> 'a eff" where
  "catch_rethrow m h =
     (case m of
        (Inl e, t) \<Rightarrow> (Inl (h e), t)
      | (Inr x, t) \<Rightarrow> (Inr x, t))"

section \<open>The functions of index.ts\<close>

definition getGitHubReleaseInfo :: "world \<Rightarrow> string \<Rightarrow> string \<Rightarrow> ReleaseData eff" where
  "getGitHubReleaseInfo w owner repo =
     call (ReposGetRelease owner repo (releaseId w))
          (repos_getRelease w owner repo (releaseId w))"

definition getGitHubRepoInfo :: "world \<Rightarrow> string \<Rightarrow> string \<Rightarrow> RepoData eff" where
  "getGitHubRepoInfo w owner repo =
     call (ReposGet owner repo) (repos_get w owner repo)"

text \<open>
  The text that \<open>getReleaseNote\<close> assembles in \<open>releaseBody\<close>, statement by statement:
  the body or the empty string, the rule when that is not empty, the attribution when
  the repository is not private.
\<close>

definition releaseBody :: "RepoData \<Rightarrow> ReleaseData \<Rightarrow> string" where
  "releaseBody repoInfo releaseInfo =
     (let b0 = (case rel_body releaseInfo of
                  None \<Rightarrow> []
                | Some b \<Rightarrow> (if b = [] then [] else b));
          b1 = (if b0 \<noteq> [] then b0 @ [CHR 0x0A, CHR 0x0A] @ ''---'' else b0);
          b2 = (if \<not> repo_private repoInfo
                then b1 @ [CHR 0x0A, CHR 0x0A] @ ''*Generated from ['' @
                     rel_tag_name releaseInfo @ '']('' @ rel_html_url releaseInfo @ '')*''
                else b1)
      in b2)"

definition getReleaseNote :: "world \<Rightarrow> RepoData \<Rightarrow> ReleaseData \<Rightarrow> ReleaseNote eff" where
  "getReleaseNote w repoInfo releaseInfo =
     (let text = releaseBody repoInfo releaseInfo;
          ctxt = context_owner w @ ''/'' @ context_repo w
      in bnd (call (MarkdownRender text ''gfm'' ctxt) (markdown_render w text ''gfm'' ctxt))
             (\<lambda>html. ret \<lparr>note_html = html, note_markdown = text\<rparr>))"

text \<open>
  Reading property \<open>key\<close> of a value throws a \<open>TypeError\<close> on \<open>undefined\<close> and
  \<open>null\<close>. On an object it gives the property, \<open>undefined\<close> when the object has
  none; on every other value it gives \<open>undefined\<close> (the keys read are \<open>spec\<close>,
  \<open>requires\<close> and \<open>version\<close>, which no primitive or array has).
\<close>

definition nullish :: "jsval \<Rightarrow> bool" where
  "nullish v = (v = JUndefined \<or> v = JNull)"

fun property :: "jsval \<Rightarrow> string \<Rightarrow> jsval" where
  "property (JObj kvs) key = (case map_of kvs key of None \<Rightarrow> JUndefined | Some v \<Rightarrow> v)"
| "property _ key = JUndefined"

definition get_prop :: "world \<Rightarrow> jsval \<Rightarrow> string \<Rightarrow> js_error + jsval" where
  "get_prop w v key =
     (if nullish v then Inl (JsError ''TypeError'' (type_error_message w v key))
      else Inr (property v key))"

text \<open>The \<open>try\<close> block of \<open>readAppManifest\<close> with its \<open>catch\<close>.\<close>

definition read_manifest_try :: "world \<Rightarrow> string \<Rightarrow> bool \<Rightarrow> CommonManifest option eff" where
  "read_manifest_try w targetFile isPlugin =
     catch_rethrow
       (bnd (call (AdmZipOpen targetFile) (AdmZip w targetFile)) (\<lambda>z.
        let yamlFileName = (if isPlugin then ''plugin.yaml'' else ''theme.yaml'') in
        bnd (call (ZipGetEntry yamlFileName) (Inr (z yamlFileName))) (\<lambda>yamlEntry.
        case yamlEntry of
          None \<Rightarrow>
            throw (Error ((if isPlugin then ''Plugin'' else ''Theme'') @
                          '' package does not contain '' @ yamlFileName @ '' file''))
        | Some entry \<Rightarrow>
            bnd (step entry) (\<lambda>yamlContent.
            bnd (step (YAML_parse w yamlContent)) (\<lambda>manifest.
            bnd (step (get_prop w manifest ''spec'')) (\<lambda>spec1.
            bnd (step (get_prop w spec1 ''requires'')) (\<lambda>req.
            bnd (step (get_prop w manifest ''spec'')) (\<lambda>spec2.
            bnd (step (get_prop w spec2 ''version'')) (\<lambda>ver.
            ret (Some \<lparr>requires = req, version = ver\<rparr>))))))))))
       (\<lambda>error. Error (''Failed to read manifest file: '' @ toString error))"

definition readAppManifest :: "world \<Rightarrow> string list \<Rightarrow> CommonManifest option eff" where
  "readAppManifest w assets =
     (let jarFile = find (\<lambda>file. endsWith file ''.jar'') assets;
          zipFile = find (\<lambda>file. endsWith file ''.zip'') assets
      in if truthy jarFile then
           read_manifest_try w (path_join w (assetsDir w) (the jarFile)) True
         else if truthy zipFile then
           read_manifest_try w (path_join w (assetsDir w) (the zipFile)) False
         else throw (Error ''No jar or zip file found in assets directory''))"

definition release_url :: "world \<Rightarrow> string" where
  "release_url w =
     ''/apis/uc.api.developer.store.kunkunyu.com/v1alpha1/applications/'' @ appId w @
     ''/releases''"

definition release_request ::
  "ReleaseData \<Rightarrow> string \<Rightarrow> string \<Rightarrow> CommonManifest \<Rightarrow> ReleaseRequest" where
  "release_request release html markdown appManifest =
     \<lparr>req_release =
        \<lparr>release_apiVersion = ''store.kunkunyu.com/v1alpha1'',
         release_kind = ''Release'',
         release_metadata = \<lparr>generateName = ''app-release-'', metadata_name = ''''\<rparr>,
         release_spec =
           \<lparr>applicationName = '''',
            displayName = rel_name release,
            draft = False,
            ownerName = '''',
            preRelease = rel_prerelease release,
            spec_requires = requires appManifest,
            spec_version = version appManifest,
            notesName = ''''\<rparr>\<rparr>,
      req_notes =
        \<lparr>notes_apiVersion = ''store.kunkunyu.com/v1alpha1'',
         notes_html = html,
         notes_kind = ''Content'',
         notes_metadata = \<lparr>generateName = ''app-release-notes-'', metadata_name = ''''\<rparr>,
         rawType = ''MARKDOWN'',
         raw = markdown\<rparr>,
      makeLatest = True\<rparr>"

definition createAppRelease ::
  "world \<Rightarrow> ReleaseData \<Rightarrow> string \<Rightarrow> string \<Rightarrow> CommonManifest option \<Rightarrow> AppRelease eff" where
  "createAppRelease w release html markdown appManifest =
     (case appManifest of
        None \<Rightarrow> throw (Error ''App manifest not found'')
      | Some m \<Rightarrow>
          (let body = release_request release html markdown m
           in call (PostRelease (release_url w) body)
                   (apiClient_post_release w (release_url w) body)))"

definition getAssets :: "world \<Rightarrow> string list eff" where
  "getAssets w =
     bnd (call (ExistsSync (assetsDir w)) (Inr (fs_existsSync w (assetsDir w)))) (\<lambda>ex.
     if \<not> ex then throw (Error (''Assets directory does not exist: '' @ assetsDir w))
     else
       bnd (call (ReaddirSync (assetsDir w)) (fs_readdirSync w (assetsDir w))) (\<lambda>assets.
       if length assets = 0
       then throw (Error (''Assets directory is empty: '' @ assetsDir w))
       else ret assets))"

definition upload_url :: string where
  "upload_url = ''/apis/uc.api.developer.store.kunkunyu.com/v1alpha1/assets/-/upload''"

text \<open>
  The callback of \<open>assets.map\<close> for one asset. It runs at once up to its \<open>await\<close>: a
  missing file rejects the promise on the spot (moment 0) and posts nothing; otherwise
  the request is sent and the promise settles with the store's answer, later
  (\<open>Suc (settle_time w index)\<close>).
\<close>

definition upload_callback ::
  "world \<Rightarrow> string \<Rightarrow> string \<Rightarrow> nat \<Rightarrow> (nat \<times> (js_error + unit)) \<times> event list" where
  "upload_callback w releaseName asset index =
     (let assetPath = assetsDir w @ ''/'' @ asset in
      if \<not> fs_existsSync w assetPath
      then ((0, Inl (Error (''Asset file does not exist: '' @ assetPath))),
            [ExistsSync assetPath])
      else
        (let formData = \<lparr>form_releaseName = releaseName, form_file = assetPath\<rparr>
         in ((Suc (settle_time w index), apiClient_post_upload w index upload_url formData),
             [ExistsSync assetPath, PostUpload upload_url formData])))"

text \<open>
  \<open>Promise.all\<close>: rejected by the promise that rejects first (the lower index among
  those of one moment), fulfilled when none rejects.
\<close>

fun first_rejection :: "(nat \<times> (js_error + 'a)) list \<Rightarrow> (nat \<times> js_error) option" where
  "first_rejection [] = None"
| "first_rejection ((t, Inr _) # ps) = first_rejection ps"
| "first_rejection ((t, Inl e) # ps) =
     (case first_rejection ps of
        None \<Rightarrow> Some (t, e)
      | Some (t', e') \<Rightarrow> if t' < t then Some (t', e') else Some (t, e))"

definition Promise_all :: "(nat \<times> (js_error + 'a)) list \<Rightarrow> js_error + unit" where
  "Promise_all ps = (case first_rejection ps of None \<Rightarrow> Inr () | Some (t, e) \<Rightarrow> Inl e)"

definition uploadAssets :: "world \<Rightarrow> string \<Rightarrow> string list \<Rightarrow> unit eff" where
  "uploadAssets w releaseName assets =
     (let uploadPromises =
            map (\<lambda>(index, asset). upload_callback w releaseName asset index)
                (enumerate 0 assets)
      in (Promise_all (map fst uploadPromises), concat (map snd uploadPromises)))"

text \<open>The async function \<open>run\<close>.\<close>

definition run :: "world \<Rightarrow> unit eff" where
  "run w =
     (if releaseId w = [] then throw (Error ''Release ID not found'')
      else
        bnd (getGitHubRepoInfo w (context_owner w) (context_repo w)) (\<lambda>repoInfo.
        bnd (getGitHubReleaseInfo w (context_owner w) (context_repo w)) (\<lambda>releaseInfo.
        bnd (getReleaseNote w repoInfo releaseInfo) (\<lambda>note.
        bnd (getAssets w) (\<lambda>assets.
        bnd (readAppManifest w assets) (\<lambda>appManifest.
        bnd (createAppRelease w releaseInfo (note_html note) (note_markdown note) appManifest)
          (\<lambda>appRelease.
        uploadAssets w (appRelease_metadata_name appRelease) assets)))))))"

text \<open>
  The end of the script: \<open>run().then(...).catch(...)\<close>. A fulfilled run is reported
  with the completion notice, a rejected one by \<open>setFailed\<close> with the error's message.
\<close>

datatype outcome = Completed string | Failed string

definition failed_prefix :: string where
  "failed_prefix = [CHR 0xE2, CHR 0x9D, CHR 0x8C] @ '' [Failed]: ''"

definition completed_message :: string where
  "completed_message =
     [CHR 0xE2, CHR 0x9C, CHR 0x85] @ '' [Completed]: App release created successfully''"

definition main :: "world \<Rightarrow> outcome \<times> event list" where
  "main w =
     (case run w of
        (Inr _, t) \<Rightarrow> (Completed completed_message, t)
      | (Inl error, t) \<Rightarrow> (Failed (failed_prefix @ err_message error), t))"

section \<open>Reading a run's calls\<close>

text \<open>The upload requests among the calls of a run, in the order they were sent.\<close>

fun upload_posts :: "event list \<Rightarrow> (string \<times> UploadForm) list" where
  "upload_posts [] = []"
| "upload_posts (PostUpload url form # es) = (url, form) # upload_posts es"
| "upload_posts (_ # es) = upload_posts es"

text \<open>The calls a run has made when it comes to read the manifest.\<close>

definition calls_before_manifest :: "world \<Rightarrow> RepoData \<Rightarrow> ReleaseData \<Rightarrow> event list" where
  "calls_before_manifest w repoInfo releaseInfo =
     [ReposGet (context_owner w) (context_repo w),
      ReposGetRelease (context_owner w) (context_repo w) (releaseId w),
      MarkdownRender (releaseBody repoInfo releaseInfo) ''gfm''
        (context_owner w @ ''/'' @ context_repo w),
      ExistsSync (assetsDir w),
      ReaddirSync (assetsDir w)]"

section \<open>Concrete worlds\<close>

text \<open>
  A run in which everything succeeds: a public repository, a release with a body, an
  assets directory holding a plugin archive and one more file, a manifest with both
  fields, a store that accepts the release and both uploads.
\<close>

definition plugin_archive :: archive where
  "plugin_archive = (\<lambda>n. if n = ''plugin.yaml'' then Some (Inr ''spec: ...'') else None)"

definition good_manifest :: jsval where
  "good_manifest =
     JObj [(''spec'', JObj [(''requires'', JStr ''2.0.0''), (''version'', JStr ''1.2.3'')])]"

definition good_world :: world where
  "good_world =
     \<lparr>appId = ''app-1'',
      assetsDir = ''build/libs'',
      releaseId = ''42'',
      context_owner = ''halo'',
      context_repo = ''plugin-foo'',
      repos_get = (\<lambda>owner repo. Inr \<lparr>repo_private = False\<rparr>),
      repos_getRelease = (\<lambda>owner repo rid.
        Inr \<lparr>rel_body = Some ''Fixed bugs'', rel_tag_name = ''v1.0'',
             rel_html_url = ''https://x'', rel_name = Some ''One'',
             rel_prerelease = True\<rparr>),
      markdown_render = (\<lambda>text mode ctxt. Inr (''<p>'' @ text @ ''</p>'')),
      fs_existsSync = (\<lambda>p. True),
      fs_readdirSync = (\<lambda>p. Inr [''README.md'', ''plugin-1.jar'']),
      path_join = (\<lambda>a b. a @ ''/'' @ b),
      AdmZip = (\<lambda>p. Inr plugin_archive),
      YAML_parse = (\<lambda>s. Inr good_manifest),
      type_error_message = (\<lambda>v k. ''Cannot read properties (reading '' @ k @ '')''),
      apiClient_post_release = (\<lambda>url body. Inr \<lparr>appRelease_metadata_name = ''app-release-x7''\<rparr>),
      apiClient_post_upload = (\<lambda>i url form. Inr ()),
      settle_time = (\<lambda>i. i)\<rparr>"


text \<open>The request the successful run posts to create the release.\<close>

definition good_body :: ReleaseRequest where
  "good_body = release_request
      \<lparr>rel_body = Some ''Fixed bugs'', rel_tag_name = ''v1.0'',
          rel_html_url = ''https://x'', rel_name = Some ''One'', rel_prerelease = True\<rparr>
      (''<p>'' @ ''Fixed bugs'' @ [CHR 0x0A, CHR 0x0A] @ ''---'' @ [CHR 0x0A, CHR 0x0A] @
         ''*Generated from [v1.0](https://x)*'' @ ''</p>'')
      (''Fixed bugs'' @ [CHR 0x0A, CHR 0x0A] @ ''---'' @ [CHR 0x0A, CHR 0x0A] @
         ''*Generated from [v1.0](https://x)*'')
      \<lparr>requires = JStr ''2.0.0'', version = JStr ''1.2.3''\<rparr>"

text \<open>The same run with an empty release-id input.\<close>

definition no_release_id_world :: world where
  "no_release_id_world = good_world\<lparr>releaseId := []\<rparr>"

text \<open>
  The same run with a manifest \<open>spec: {version: "1.2.3"}\<close>: a \<open>spec\<close> section that has
  no \<open>requires\<close>.
\<close>

definition manifest_without_requires :: jsval where
  "manifest_without_requires = JObj [(''spec'', JObj [(''version'', JStr ''1.2.3'')])]"

definition no_requires_world :: world where
  "no_requires_world = good_world\<lparr>YAML_parse := (\<lambda>s. Inr manifest_without_requires)\<rparr>"

text \<open>The same run with a manifest the parser rejects, and with an empty manifest.\<close>

definition bad_yaml_world :: world where
  "bad_yaml_world =
     good_world\<lparr>YAML_parse := (\<lambda>s. Inl (JsError ''YAMLParseError'' ''bad indentation''))\<rparr>"

definition empty_yaml_world :: world where
  "empty_yaml_world = good_world\<lparr>YAML_parse := (\<lambda>s. Inr JNull)\<rparr>"

text \<open>Runs whose assets directory is missing or empty.\<close>

definition no_dir_world :: world where
  "no_dir_world = good_world\<lparr>fs_existsSync := (\<lambda>p. False)\<rparr>"

definition empty_dir_world :: world where
  "empty_dir_world = good_world\<lparr>fs_readdirSync := (\<lambda>p. Inr [])\<rparr>"

text \<open>A run whose assets directory is missing and whose GitHub token is refused.\<close>

definition bad_token_no_dir_world :: world where
  "bad_token_no_dir_world =
     no_dir_world\<lparr>repos_get := (\<lambda>owner repo. Inl (JsError ''HttpError'' ''Bad credentials''))\<rparr>"



section \<open>Properties\<close>

subsection \<open>Sequencing\<close>

lemma bnd_Inl [simp]: "bnd (Inl e, t) f = (Inl e, t)"
  by (simp add: bnd_def)

lemma bnd_Inr [simp]: "bnd (Inr x, t) f = (fst (f x), t @ snd (f x))"
  by (simp add: bnd_def split: prod.splits)

lemma bnd_call: "bnd (call ev a) f = (case a of Inl e \<Rightarrow> (Inl e, [ev]) | Inr x \<Rightarrow> (fst (f x), ev # snd (f x)))"
  by (simp add: call_def split: sum.splits)

lemma bnd_step: "bnd (step a) f = (case a of Inl e \<Rightarrow> (Inl e, []) | Inr x \<Rightarrow> f x)"
  by (simp add: step_def split: sum.splits)

lemma bnd_eq:
  "bnd m f = (case fst m of Inl e \<Rightarrow> (Inl e, snd m) | Inr x \<Rightarrow> (fst (f x), snd m @ snd (f x)))"
  by (cases m) (simp split: sum.splits)

lemma catch_rethrow_Inl: "fst (catch_rethrow m h) = Inl e \<Longrightarrow> \<exists>e'. e = h e'"
  by (auto simp: catch_rethrow_def split: prod.splits sum.splits)

subsection \<open>Searching the listing\<close>

lemma endsWith_nonempty: "endsWith s (c # cs) \<Longrightarrow> s \<noteq> []"
  by (auto simp: endsWith_def)

lemma find_endsWith_Some:
  "\<exists>f\<in>set assets. P f \<Longrightarrow> \<exists>x. find P assets = Some x \<and> x \<in> set assets \<and> P x"
  by (induction assets) auto

lemma find_Some_holds: "find P xs = Some x \<Longrightarrow> P x \<and> x \<in> set xs"
  by (induction xs) (auto split: if_splits)

lemma find_None_none: "find P xs = None \<longleftrightarrow> \<not> (\<exists>x\<in>set xs. P x)"
  by (induction xs) auto

subsection \<open>The release note\<close>

lemma getReleaseNote_eq:
  "getReleaseNote w ri rel =
     (case markdown_render w (releaseBody ri rel) ''gfm'' (context_owner w @ ''/'' @ context_repo w) of
        Inl e \<Rightarrow> (Inl e, [MarkdownRender (releaseBody ri rel) ''gfm'' (context_owner w @ ''/'' @ context_repo w)])
      | Inr html \<Rightarrow> (Inr \<lparr>note_html = html, note_markdown = releaseBody ri rel\<rparr>,
           [MarkdownRender (releaseBody ri rel) ''gfm'' (context_owner w @ ''/'' @ context_repo w)]))"
  by (simp add: getReleaseNote_def Let_def bnd_call ret_def split: sum.splits)

subsection \<open>The manifest reader\<close>

lemma read_manifest_try_trace:
  "snd (read_manifest_try w p isPlugin) =
     AdmZipOpen p #
     (case AdmZip w p of
        Inl e \<Rightarrow> []
      | Inr z \<Rightarrow> [ZipGetEntry (if isPlugin then ''plugin.yaml'' else ''theme.yaml'')])"
  by (simp add: read_manifest_try_def catch_rethrow_def bnd_call bnd_step Let_def throw_def ret_def
           split: sum.splits option.splits prod.splits)

lemma read_manifest_try_open_fails:
  "AdmZip w p = Inl e \<Longrightarrow>
   fst (read_manifest_try w p isPlugin) =
     Inl (Error (''Failed to read manifest file: '' @ toString e))"
  by (simp add: read_manifest_try_def catch_rethrow_def bnd_call)

lemma read_manifest_try_no_entry:
  "AdmZip w p = Inr z \<Longrightarrow> z (if isPlugin then ''plugin.yaml'' else ''theme.yaml'') = None \<Longrightarrow>
   fst (read_manifest_try w p isPlugin) =
     Inl (Error (''Failed to read manifest file: '' @
       toString (Error ((if isPlugin then ''Plugin'' else ''Theme'') @ '' package does not contain '' @
          (if isPlugin then ''plugin.yaml'' else ''theme.yaml'') @ '' file''))))"
  by (simp add: read_manifest_try_def catch_rethrow_def bnd_call throw_def)

lemma read_manifest_try_entry:
  "AdmZip w p = Inr z \<Longrightarrow> z (if isPlugin then ''plugin.yaml'' else ''theme.yaml'') = Some entry \<Longrightarrow>
   fst (read_manifest_try w p isPlugin) =
     (case entry of
        Inl e \<Rightarrow> Inl (Error (''Failed to read manifest file: '' @ toString e))
      | Inr yamlContent \<Rightarrow>
          (case YAML_parse w yamlContent of
             Inl e \<Rightarrow> Inl (Error (''Failed to read manifest file: '' @ toString e))
           | Inr manifest \<Rightarrow>
               if nullish manifest then
                 Inl (Error (''Failed to read manifest file: '' @
                   toString (JsError ''TypeError'' (type_error_message w manifest ''spec''))))
               else if nullish (property manifest ''spec'') then
                 Inl (Error (''Failed to read manifest file: '' @
                   toString (JsError ''TypeError''
                     (type_error_message w (property manifest ''spec'') ''requires''))))
               else Inr (Some \<lparr>requires = property (property manifest ''spec'') ''requires'',
                               version = property (property manifest ''spec'') ''version''\<rparr>)))"
  by (simp add: read_manifest_try_def catch_rethrow_def bnd_call bnd_step get_prop_def ret_def
           split: sum.splits)

lemma read_manifest_try_error:
  "fst (read_manifest_try w p isPlugin) = Inl e \<Longrightarrow>
   \<exists>s. e = Error (''Failed to read manifest file: '' @ s)"
  unfolding read_manifest_try_def by (drule catch_rethrow_Inl) blast


lemma readAppManifest_jar:
  assumes "find (\<lambda>file. endsWith file ''.jar'') assets = Some jar"
  shows "readAppManifest w assets = read_manifest_try w (path_join w (assetsDir w) jar) True"
proof -
  have "endsWith jar ''.jar''" using find_Some_holds[OF assms] by simp
  then have "jar \<noteq> []" by (rule endsWith_nonempty)
  with assms show ?thesis by (simp add: readAppManifest_def Let_def)
qed

lemma readAppManifest_zip:
  assumes "find (\<lambda>file. endsWith file ''.jar'') assets = None"
      and "find (\<lambda>file. endsWith file ''.zip'') assets = Some zipFile"
  shows "readAppManifest w assets = read_manifest_try w (path_join w (assetsDir w) zipFile) False"
proof -
  have "endsWith zipFile ''.zip''" using find_Some_holds[OF assms(2)] by simp
  then have "zipFile \<noteq> []" by (rule endsWith_nonempty)
  with assms show ?thesis by (simp add: readAppManifest_def Let_def)
qed

lemma readAppManifest_none:
  assumes "find (\<lambda>file. endsWith file ''.jar'') assets = None"
      and "find (\<lambda>file. endsWith file ''.zip'') assets = None"
  shows "readAppManifest w assets =
           (Inl (Error ''No jar or zip file found in assets directory''), [])"
  using assms by (simp add: readAppManifest_def Let_def throw_def)

lemma readAppManifest_target:
  assumes "\<exists>f\<in>set assets. endsWith f ''.jar'' \<or> endsWith f ''.zip''"
  shows "\<exists>f\<in>set assets. \<exists>isPlugin. (endsWith f ''.jar'' \<or> endsWith f ''.zip'') \<and>
           readAppManifest w assets =
             read_manifest_try w (path_join w (assetsDir w) f) isPlugin"
proof (cases "\<exists>f\<in>set assets. endsWith f ''.jar''")
  case True
  then obtain jar where j: "find (\<lambda>file. endsWith file ''.jar'') assets = Some jar"
      "jar \<in> set assets" "endsWith jar ''.jar''"
    using find_endsWith_Some[of assets "\<lambda>file. endsWith file ''.jar''"] by blast
  then show ?thesis using readAppManifest_jar[OF j(1), of w] by blast
next
  case False
  then have n: "find (\<lambda>file. endsWith file ''.jar'') assets = None"
    by (simp add: find_None_none)
  from False assms have "\<exists>f\<in>set assets. endsWith f ''.zip''" by blast
  then obtain zipFile where z: "find (\<lambda>file. endsWith file ''.zip'') assets = Some zipFile"
      "zipFile \<in> set assets" "endsWith zipFile ''.zip''"
    using find_endsWith_Some[of assets "\<lambda>file. endsWith file ''.zip''"] by blast
  then show ?thesis using readAppManifest_zip[OF n z(1), of w] by blast
qed


lemma readAppManifest_trace_shape:
  "snd (readAppManifest w assets) = [] \<or>
   (\<exists>p. snd (readAppManifest w assets) = [AdmZipOpen p]) \<or>
   (\<exists>p y. snd (readAppManifest w assets) = [AdmZipOpen p, ZipGetEntry y])"
  by (simp add: readAppManifest_def Let_def read_manifest_try_trace throw_def split: sum.splits)

lemma readAppManifest_success_opens:
  assumes "fst (readAppManifest w assets) = Inr x"
  shows "\<exists>f\<in>set assets. AdmZipOpen (path_join w (assetsDir w) f) \<in> set (snd (readAppManifest w assets))"
proof (cases "\<exists>f\<in>set assets. endsWith f ''.jar'' \<or> endsWith f ''.zip''")
  case True
  from readAppManifest_target[OF True, of w] show ?thesis
    by (auto simp: read_manifest_try_trace)
next
  case False
  then have "find (\<lambda>file. endsWith file ''.jar'') assets = None"
    and "find (\<lambda>file. endsWith file ''.zip'') assets = None"
    by (auto simp: find_None_none)
  from readAppManifest_none[OF this, of w] assms show ?thesis by simp
qed

lemma upload_posts_readAppManifest [simp]: "upload_posts (snd (readAppManifest w assets)) = []"
  using readAppManifest_trace_shape[of w assets] by auto

lemma store_calls_readAppManifest [simp]:
  "filter is_store_call (snd (readAppManifest w assets)) = []"
  using readAppManifest_trace_shape[of w assets] by auto

lemma PostRelease_notin_readAppManifest [simp]:
  "PostRelease url body \<notin> set (snd (readAppManifest w assets))"
  using readAppManifest_trace_shape[of w assets] by auto




subsection \<open>The release request and the listing\<close>

lemma createAppRelease_Some:
  "createAppRelease w release html markdown (Some m) =
     (apiClient_post_release w (release_url w) (release_request release html markdown m),
      [PostRelease (release_url w) (release_request release html markdown m)])"
  by (simp add: createAppRelease_def call_def Let_def)

lemma release_request_fields:
  "displayName (release_spec (req_release (release_request release html markdown m))) = rel_name release"
  "preRelease (release_spec (req_release (release_request release html markdown m))) = rel_prerelease release"
  "spec_requires (release_spec (req_release (release_request release html markdown m))) = requires m"
  "spec_version (release_spec (req_release (release_request release html markdown m))) = version m"
  "draft (release_spec (req_release (release_request release html markdown m))) = False"
  "notes_html (req_notes (release_request release html markdown m)) = html"
  "raw (req_notes (release_request release html markdown m)) = markdown"
  "rawType (req_notes (release_request release html markdown m)) = ''MARKDOWN''"
  by (simp_all add: release_request_def)

lemma getAssets_eq:
  "getAssets w =
     (if \<not> fs_existsSync w (assetsDir w)
      then (Inl (Error (''Assets directory does not exist: '' @ assetsDir w)),
            [ExistsSync (assetsDir w)])
      else case fs_readdirSync w (assetsDir w) of
             Inl e \<Rightarrow> (Inl e, [ExistsSync (assetsDir w), ReaddirSync (assetsDir w)])
           | Inr assets \<Rightarrow>
               if assets = []
               then (Inl (Error (''Assets directory is empty: '' @ assetsDir w)),
                     [ExistsSync (assetsDir w), ReaddirSync (assetsDir w)])
               else (Inr assets, [ExistsSync (assetsDir w), ReaddirSync (assetsDir w)]))"
  by (simp add: getAssets_def bnd_call throw_def ret_def split: sum.splits)

subsection \<open>The uploads\<close>

lemma upload_posts_append: "upload_posts (xs @ ys) = upload_posts xs @ upload_posts ys"
  by (induction xs rule: upload_posts.induct) simp_all

lemma upload_callback_trace:
  "snd (upload_callback w releaseName asset index) =
     ExistsSync (assetsDir w @ ''/'' @ asset) #
     (if fs_existsSync w (assetsDir w @ ''/'' @ asset)
      then [PostUpload upload_url
              \<lparr>form_releaseName = releaseName, form_file = assetsDir w @ ''/'' @ asset\<rparr>]
      else [])"
  by (simp add: upload_callback_def Let_def)

lemma upload_callback_result:
  "fst (upload_callback w releaseName asset index) =
     (if fs_existsSync w (assetsDir w @ ''/'' @ asset)
      then (Suc (settle_time w index),
            apiClient_post_upload w index upload_url
              \<lparr>form_releaseName = releaseName, form_file = assetsDir w @ ''/'' @ asset\<rparr>)
      else (0, Inl (Error (''Asset file does not exist: '' @ assetsDir w @ ''/'' @ asset))))"
  by (simp add: upload_callback_def Let_def)

lemma uploadAssets_trace_aux:
  "concat (map (\<lambda>p. snd (upload_callback w releaseName (snd p) (fst p))) (enumerate k assets)) =
   concat (map (\<lambda>asset. snd (upload_callback w releaseName asset 0)) assets)"
  by (induction assets arbitrary: k) (simp_all add: upload_callback_trace)

lemma uploadAssets_trace:
  "snd (uploadAssets w releaseName assets) =
     concat (map (\<lambda>asset. snd (upload_callback w releaseName asset 0)) assets)"
  by (simp add: uploadAssets_def Let_def comp_def case_prod_unfold uploadAssets_trace_aux)

lemma PostRelease_notin_uploadAssets [simp]:
  "PostRelease url body \<notin> set (snd (uploadAssets w releaseName assets))"
  by (auto simp: uploadAssets_trace upload_callback_trace split: if_splits)

lemma upload_posts_uploadAssets:
  "upload_posts (snd (uploadAssets w releaseName assets)) =
     map (\<lambda>asset. (upload_url,
            \<lparr>form_releaseName = releaseName, form_file = assetsDir w @ ''/'' @ asset\<rparr>))
         (filter (\<lambda>asset. fs_existsSync w (assetsDir w @ ''/'' @ asset)) assets)"
  unfolding uploadAssets_trace
  by (induction assets) (simp_all add: upload_posts_append upload_callback_trace)

lemma uploadAssets_result:
  "fst (uploadAssets w releaseName assets) =
     Promise_all (map (\<lambda>(index, asset). fst (upload_callback w releaseName asset index))
                      (enumerate 0 assets))"
  by (simp add: uploadAssets_def Let_def comp_def case_prod_unfold)

lemma in_upload_promises:
  "p \<in> set (map (\<lambda>(index, asset). fst (upload_callback w releaseName asset index))
               (enumerate 0 assets)) \<longleftrightarrow>
   (\<exists>j<length assets. p = fst (upload_callback w releaseName (assets ! j) j))"
proof
  assume "p \<in> set (map (\<lambda>(index, asset). fst (upload_callback w releaseName asset index))
               (enumerate 0 assets))"
  then obtain j a where "(j, a) \<in> set (enumerate 0 assets)"
      and "p = fst (upload_callback w releaseName a j)"
    by auto
  then show "\<exists>j<length assets. p = fst (upload_callback w releaseName (assets ! j) j)"
    by (auto simp: in_set_enumerate_eq)
next
  assume "\<exists>j<length assets. p = fst (upload_callback w releaseName (assets ! j) j)"
  then obtain j where j: "j < length assets"
      and p: "p = fst (upload_callback w releaseName (assets ! j) j)"
    by blast
  from j have "(j, assets ! j) \<in> set (enumerate 0 assets)"
    by (simp add: in_set_enumerate_eq)
  with p show "p \<in> set (map (\<lambda>(index, asset). fst (upload_callback w releaseName asset index))
               (enumerate 0 assets))"
    by force
qed

lemma first_rejection_None_iff:
  "first_rejection ps = None \<longleftrightarrow> (\<forall>p\<in>set ps. \<exists>x. snd p = Inr x)"
  by (induction ps rule: first_rejection.induct) (auto split: option.splits)


lemma Promise_all_fulfilled_iff:
  "Promise_all ps = Inr u \<longleftrightarrow> (\<forall>p\<in>set ps. \<exists>x. snd p = Inr x)"
  by (auto simp: Promise_all_def first_rejection_None_iff[symmetric] split: option.splits)



lemma uploadAssets_fulfilled:
  assumes "fst (uploadAssets w releaseName assets) = Inr u"
  shows "\<forall>asset\<in>set assets. fs_existsSync w (assetsDir w @ ''/'' @ asset)"
proof
  fix asset assume "asset \<in> set assets"
  then obtain j where j: "j < length assets" "assets ! j = asset"
    by (auto simp: in_set_conv_nth)
  from assms have "\<forall>p\<in>set (map (\<lambda>(index, asset). fst (upload_callback w releaseName asset index))
                      (enumerate 0 assets)). \<exists>x. snd p = Inr x"
    by (simp add: uploadAssets_result Promise_all_fulfilled_iff)
  with j have "\<exists>x. snd (fst (upload_callback w releaseName asset j)) = Inr x"
    using in_upload_promises[of "fst (upload_callback w releaseName asset j)" w releaseName assets]
    by blast
  then show "fs_existsSync w (assetsDir w @ ''/'' @ asset)"
    by (auto simp: upload_callback_result split: if_splits)
qed

lemma uploadAssets_fulfilled_answers:
  assumes "fst (uploadAssets w releaseName assets) = Inr u"
      and "i < length assets"
  shows "fs_existsSync w (assetsDir w @ ''/'' @ assets ! i) \<and>
         apiClient_post_upload w i upload_url
           \<lparr>form_releaseName = releaseName, form_file = assetsDir w @ ''/'' @ assets ! i\<rparr> =
           Inr ()"
proof -
  from assms(1) have "\<forall>p\<in>set (map (\<lambda>(index, asset). fst (upload_callback w releaseName asset index))
                      (enumerate 0 assets)). \<exists>x. snd p = Inr x"
    by (simp add: uploadAssets_result Promise_all_fulfilled_iff)
  with assms(2) have "\<exists>x. snd (fst (upload_callback w releaseName (assets ! i) i)) = Inr x"
    using in_upload_promises[of "fst (upload_callback w releaseName (assets ! i) i)" w
            releaseName assets]
    by blast
  then show ?thesis
    by (auto simp: upload_callback_result split: if_splits)
qed

lemma inj_upload_form:
  "inj (\<lambda>asset. (url, \<lparr>form_releaseName = releaseName, form_file = dir @ ''/'' @ asset\<rparr>))"
  by (auto simp: inj_def)

subsection \<open>The run\<close>

lemma upload_posts_calls_before_manifest [simp]:
  "upload_posts (calls_before_manifest w repoInfo releaseInfo) = []"
  by (simp add: calls_before_manifest_def)

lemma PostRelease_notin_calls_before_manifest [simp]:
  "PostRelease url body \<notin> set (calls_before_manifest w repoInfo releaseInfo)"
  by (simp add: calls_before_manifest_def)

lemma run_eq:
  "run w =
     (if releaseId w = [] then (Inl (Error ''Release ID not found''), [])
      else case repos_get w (context_owner w) (context_repo w) of
        Inl e \<Rightarrow> (Inl e, [ReposGet (context_owner w) (context_repo w)])
      | Inr repoInfo \<Rightarrow>
      (case repos_getRelease w (context_owner w) (context_repo w) (releaseId w) of
        Inl e \<Rightarrow>
          (Inl e, [ReposGet (context_owner w) (context_repo w),
                   ReposGetRelease (context_owner w) (context_repo w) (releaseId w)])
      | Inr releaseInfo \<Rightarrow>
      (case markdown_render w (releaseBody repoInfo releaseInfo) ''gfm''
              (context_owner w @ ''/'' @ context_repo w) of
        Inl e \<Rightarrow> (Inl e, take 3 (calls_before_manifest w repoInfo releaseInfo))
      | Inr html \<Rightarrow>
      (if \<not> fs_existsSync w (assetsDir w)
       then (Inl (Error (''Assets directory does not exist: '' @ assetsDir w)),
             take 4 (calls_before_manifest w repoInfo releaseInfo))
       else case fs_readdirSync w (assetsDir w) of
         Inl e \<Rightarrow> (Inl e, calls_before_manifest w repoInfo releaseInfo)
       | Inr assets \<Rightarrow>
         if assets = []
         then (Inl (Error (''Assets directory is empty: '' @ assetsDir w)),
               calls_before_manifest w repoInfo releaseInfo)
         else (case fst (readAppManifest w assets) of
            Inl e \<Rightarrow>
              (Inl e, calls_before_manifest w repoInfo releaseInfo @
                      snd (readAppManifest w assets))
          | Inr None \<Rightarrow>
              (Inl (Error ''App manifest not found''),
               calls_before_manifest w repoInfo releaseInfo @ snd (readAppManifest w assets))
          | Inr (Some m) \<Rightarrow>
             (case apiClient_post_release w (release_url w)
                     (release_request releaseInfo html (releaseBody repoInfo releaseInfo) m) of
                Inl e \<Rightarrow>
                  (Inl e, calls_before_manifest w repoInfo releaseInfo @
                     snd (readAppManifest w assets) @
                     [PostRelease (release_url w)
                        (release_request releaseInfo html (releaseBody repoInfo releaseInfo) m)])
              | Inr appRelease \<Rightarrow>
                  (fst (uploadAssets w (appRelease_metadata_name appRelease) assets),
                   calls_before_manifest w repoInfo releaseInfo @
                     snd (readAppManifest w assets) @
                     [PostRelease (release_url w)
                        (release_request releaseInfo html (releaseBody repoInfo releaseInfo) m)] @
                     snd (uploadAssets w (appRelease_metadata_name appRelease) assets))))))))"
  by (simp add: run_def getGitHubRepoInfo_def getGitHubReleaseInfo_def getReleaseNote_eq getAssets_eq
        bnd_call throw_def createAppRelease_def Let_def call_def calls_before_manifest_def bnd_eq
      split: sum.splits option.splits)

lemma run_release_posted:
  assumes "PostRelease url body \<in> set (snd (run w))"
  shows "\<exists>repoInfo releaseInfo html assets m.
     releaseId w \<noteq> [] \<and>
     repos_get w (context_owner w) (context_repo w) = Inr repoInfo \<and>
     repos_getRelease w (context_owner w) (context_repo w) (releaseId w) = Inr releaseInfo \<and>
     markdown_render w (releaseBody repoInfo releaseInfo) ''gfm''
       (context_owner w @ ''/'' @ context_repo w) = Inr html \<and>
     fs_existsSync w (assetsDir w) \<and> fs_readdirSync w (assetsDir w) = Inr assets \<and>
     assets \<noteq> [] \<and>
     fst (readAppManifest w assets) = Inr (Some m) \<and>
     url = release_url w \<and>
     body = release_request releaseInfo html (releaseBody repoInfo releaseInfo) m \<and>
     run w =
       (case apiClient_post_release w url body of
          Inl e \<Rightarrow>
            (Inl e, calls_before_manifest w repoInfo releaseInfo @
                    snd (readAppManifest w assets) @ [PostRelease url body])
        | Inr appRelease \<Rightarrow>
            (fst (uploadAssets w (appRelease_metadata_name appRelease) assets),
             calls_before_manifest w repoInfo releaseInfo @
             snd (readAppManifest w assets) @ [PostRelease url body] @
             snd (uploadAssets w (appRelease_metadata_name appRelease) assets)))"
  using assms unfolding run_eq
  by (auto simp: calls_before_manifest_def split: if_splits sum.splits option.splits)

lemma run_fulfilled:
  assumes "fst (run w) = Inr u"
  shows "\<exists>repoInfo releaseInfo html assets m appRelease.
     releaseId w \<noteq> [] \<and>
     repos_get w (context_owner w) (context_repo w) = Inr repoInfo \<and>
     repos_getRelease w (context_owner w) (context_repo w) (releaseId w) = Inr releaseInfo \<and>
     markdown_render w (releaseBody repoInfo releaseInfo) ''gfm''
       (context_owner w @ ''/'' @ context_repo w) = Inr html \<and>
     fs_existsSync w (assetsDir w) \<and> fs_readdirSync w (assetsDir w) = Inr assets \<and>
     assets \<noteq> [] \<and>
     fst (readAppManifest w assets) = Inr (Some m) \<and>
     apiClient_post_release w (release_url w)
       (release_request releaseInfo html (releaseBody repoInfo releaseInfo) m) = Inr appRelease \<and>
     fst (uploadAssets w (appRelease_metadata_name appRelease) assets) = Inr () \<and>
     snd (run w) =
       calls_before_manifest w repoInfo releaseInfo @ snd (readAppManifest w assets) @
       [PostRelease (release_url w)
          (release_request releaseInfo html (releaseBody repoInfo releaseInfo) m)] @
       snd (uploadAssets w (appRelease_metadata_name appRelease) assets)"
  using assms unfolding run_eq
  by (auto simp: calls_before_manifest_def split: if_splits sum.splits option.splits)

lemma main_trace: "snd (main w) = snd (run w)"
  by (cases "run w") (simp add: main_def split: sum.splits)

lemma main_outcome:
  "fst (main w) =
     (case fst (run w) of
        Inr u \<Rightarrow> Completed completed_message
      | Inl error \<Rightarrow> Failed (failed_prefix @ err_message error))"
  by (cases "run w") (simp add: main_def split: sum.splits)

subsection \<open>The concrete worlds\<close>

lemma good_world_simps:
  "appId good_world = ''app-1''"
  "assetsDir good_world = ''build/libs''"
  "releaseId good_world = ''42''"
  "context_owner good_world = ''halo''"
  "context_repo good_world = ''plugin-foo''"
  "repos_get good_world ow rp = Inr \<lparr>repo_private = False\<rparr>"
  "repos_getRelease good_world ow rp rid =
     Inr \<lparr>rel_body = Some ''Fixed bugs'', rel_tag_name = ''v1.0'',
          rel_html_url = ''https://x'', rel_name = Some ''One'', rel_prerelease = True\<rparr>"
  "markdown_render good_world txt mode ctxt = Inr (''<p>'' @ txt @ ''</p>'')"
  "fs_existsSync good_world p = True"
  "fs_readdirSync good_world p = Inr [''README.md'', ''plugin-1.jar'']"
  "path_join good_world a b = a @ ''/'' @ b"
  "AdmZip good_world p = Inr plugin_archive"
  "YAML_parse good_world c = Inr good_manifest"
  "apiClient_post_release good_world url body = Inr \<lparr>appRelease_metadata_name = ''app-release-x7''\<rparr>"
  "apiClient_post_upload good_world i url form = Inr ()"
  "settle_time good_world i = i"
  by (simp_all add: good_world_def)

lemma good_world_manifest:
  "readAppManifest good_world [''README.md'', ''plugin-1.jar''] =
     (Inr (Some \<lparr>requires = JStr ''2.0.0'', version = JStr ''1.2.3''\<rparr>),
      [AdmZipOpen ''build/libs/plugin-1.jar'', ZipGetEntry ''plugin.yaml''])"
proof -
  have f: "find (\<lambda>file. endsWith file ''.jar'') [''README.md'', ''plugin-1.jar''] =
             Some ''plugin-1.jar''"
    by (simp add: endsWith_def)
  have a: "AdmZip good_world ''build/libs/plugin-1.jar'' = Inr plugin_archive"
    by (simp add: good_world_simps)
  have e: "plugin_archive (if True then ''plugin.yaml'' else ''theme.yaml'') = Some (Inr ''spec: ...'')"
    by (simp add: plugin_archive_def)
  have "fst (read_manifest_try good_world ''build/libs/plugin-1.jar'' True) =
          Inr (Some \<lparr>requires = JStr ''2.0.0'', version = JStr ''1.2.3''\<rparr>)"
    using read_manifest_try_entry[OF a e]
    by (simp add: good_world_simps good_manifest_def nullish_def)
  moreover have "snd (read_manifest_try good_world ''build/libs/plugin-1.jar'' True) =
          [AdmZipOpen ''build/libs/plugin-1.jar'', ZipGetEntry ''plugin.yaml'']"
    using a by (simp add: read_manifest_try_trace)
  ultimately show ?thesis
    using readAppManifest_jar[OF f, of good_world]
    by (simp add: prod_eq_iff good_world_simps)
qed

lemma good_world_run:
  "run good_world =
     (Inr (),
      [ReposGet ''halo'' ''plugin-foo'',
       ReposGetRelease ''halo'' ''plugin-foo'' ''42'',
       MarkdownRender (''Fixed bugs'' @ [CHR 0x0A, CHR 0x0A] @ ''---'' @ [CHR 0x0A, CHR 0x0A] @
         ''*Generated from [v1.0](https://x)*'') ''gfm'' ''halo/plugin-foo'',
       ExistsSync ''build/libs'',
       ReaddirSync ''build/libs'',
       AdmZipOpen ''build/libs/plugin-1.jar'',
       ZipGetEntry ''plugin.yaml'',
       PostRelease ''/apis/uc.api.developer.store.kunkunyu.com/v1alpha1/applications/app-1/releases''
         good_body,
       ExistsSync ''build/libs/README.md'',
       PostUpload upload_url
         \<lparr>form_releaseName = ''app-release-x7'', form_file = ''build/libs/README.md''\<rparr>,
       ExistsSync ''build/libs/plugin-1.jar'',
       PostUpload upload_url
         \<lparr>form_releaseName = ''app-release-x7'', form_file = ''build/libs/plugin-1.jar''\<rparr>])"
  unfolding run_eq
  by (simp add: good_world_simps good_world_manifest calls_before_manifest_def releaseBody_def
        release_url_def good_body_def uploadAssets_trace upload_callback_trace
        uploadAssets_result upload_callback_result Promise_all_def enumerate_eq_zip upt_rec)





subsection \<open>Selection of the package (C1, C2)\<close>

text \<open>
  Claim C1. When the listing has a file ending in .jar, the first such file is the one
  opened, and plugin.yaml is looked up in it; this holds whether or not a .zip is
  listed too. When it has no .jar but a file ending in .zip, the first such file is
  opened and theme.yaml is looked up in it.
\<close>

theorem readAppManifest_selection:
  "((\<exists>f\<in>set assets. endsWith f ''.jar'') \<longrightarrow>
      (\<exists>jar\<in>set assets. endsWith jar ''.jar'' \<and>
         find (\<lambda>file. endsWith file ''.jar'') assets = Some jar \<and>
         readAppManifest w assets = read_manifest_try w (path_join w (assetsDir w) jar) True \<and>
         snd (readAppManifest w assets) =
           AdmZipOpen (path_join w (assetsDir w) jar) #
           (case AdmZip w (path_join w (assetsDir w) jar) of
              Inl e \<Rightarrow> []
            | Inr z \<Rightarrow> [ZipGetEntry ''plugin.yaml'']))) \<and>
   (\<not> (\<exists>f\<in>set assets. endsWith f ''.jar'') \<and> (\<exists>f\<in>set assets. endsWith f ''.zip'') \<longrightarrow>
      (\<exists>zipFile\<in>set assets. endsWith zipFile ''.zip'' \<and>
         find (\<lambda>file. endsWith file ''.zip'') assets = Some zipFile \<and>
         readAppManifest w assets =
           read_manifest_try w (path_join w (assetsDir w) zipFile) False \<and>
         snd (readAppManifest w assets) =
           AdmZipOpen (path_join w (assetsDir w) zipFile) #
           (case AdmZip w (path_join w (assetsDir w) zipFile) of
              Inl e \<Rightarrow> []
            | Inr z \<Rightarrow> [ZipGetEntry ''theme.yaml''])))"
proof (intro conjI impI)
  assume "\<exists>f\<in>set assets. endsWith f ''.jar''"
  then obtain jar where j: "find (\<lambda>file. endsWith file ''.jar'') assets = Some jar"
      "jar \<in> set assets" "endsWith jar ''.jar''"
    using find_endsWith_Some[of assets "\<lambda>file. endsWith file ''.jar''"] by blast
  show "\<exists>jar\<in>set assets. endsWith jar ''.jar'' \<and>
         find (\<lambda>file. endsWith file ''.jar'') assets = Some jar \<and>
         readAppManifest w assets = read_manifest_try w (path_join w (assetsDir w) jar) True \<and>
         snd (readAppManifest w assets) =
           AdmZipOpen (path_join w (assetsDir w) jar) #
           (case AdmZip w (path_join w (assetsDir w) jar) of
              Inl e \<Rightarrow> []
            | Inr z \<Rightarrow> [ZipGetEntry ''plugin.yaml''])"
    using j readAppManifest_jar[OF j(1), of w] read_manifest_try_trace[of w _ True]
    by (intro bexI[of _ jar]) simp_all
next
  assume a: "\<not> (\<exists>f\<in>set assets. endsWith f ''.jar'') \<and> (\<exists>f\<in>set assets. endsWith f ''.zip'')"
  then have n: "find (\<lambda>file. endsWith file ''.jar'') assets = None"
    by (simp add: find_None_none)
  from a obtain zipFile where z: "find (\<lambda>file. endsWith file ''.zip'') assets = Some zipFile"
      "zipFile \<in> set assets" "endsWith zipFile ''.zip''"
    using find_endsWith_Some[of assets "\<lambda>file. endsWith file ''.zip''"] by blast
  show "\<exists>zipFile\<in>set assets. endsWith zipFile ''.zip'' \<and>
         find (\<lambda>file. endsWith file ''.zip'') assets = Some zipFile \<and>
         readAppManifest w assets =
           read_manifest_try w (path_join w (assetsDir w) zipFile) False \<and>
         snd (readAppManifest w assets) =
           AdmZipOpen (path_join w (assetsDir w) zipFile) #
           (case AdmZip w (path_join w (assetsDir w) zipFile) of
              Inl e \<Rightarrow> []
            | Inr z \<Rightarrow> [ZipGetEntry ''theme.yaml''])"
    using z readAppManifest_zip[OF n z(1), of w] read_manifest_try_trace[of w _ False]
    by (intro bexI[of _ zipFile]) simp_all
qed

theorem readAppManifest_selection_witness:
  "(\<exists>f\<in>set [''theme.zip'', ''plugin-1.jar'']. endsWith f ''.jar'') \<and>
   find (\<lambda>file. endsWith file ''.jar'') [''theme.zip'', ''plugin-1.jar''] = Some ''plugin-1.jar'' \<and>
   snd (readAppManifest good_world [''theme.zip'', ''plugin-1.jar'']) =
     [AdmZipOpen ''build/libs/plugin-1.jar'', ZipGetEntry ''plugin.yaml'']"
proof -
  let ?as = "[''theme.zip'', ''plugin-1.jar'']"
  have h: "\<exists>f\<in>set ?as. endsWith f ''.jar''"
    by (simp add: endsWith_def)
  have f: "find (\<lambda>file. endsWith file ''.jar'') ?as = Some ''plugin-1.jar''"
    by (simp add: endsWith_def)
  from readAppManifest_selection[of ?as good_world] h f
  have "snd (readAppManifest good_world ?as) =
          AdmZipOpen (path_join good_world (assetsDir good_world) ''plugin-1.jar'') #
          (case AdmZip good_world (path_join good_world (assetsDir good_world) ''plugin-1.jar'') of
             Inl e \<Rightarrow> []
           | Inr z \<Rightarrow> [ZipGetEntry ''plugin.yaml''])"
    by auto
  then show ?thesis using h f by (simp add: good_world_simps)
qed

text \<open>
  Claim C2, as the code has it. Extraction fails with "No jar or zip file found in
  assets directory", having opened no archive, when no listed file ends in .jar or
  .zip. As soon as one does (one kind, both kinds, or several of one kind) an archive
  named by such a file is opened, and the extraction does not fail with that error.
\<close>

theorem readAppManifest_no_package:
  "(\<not> (\<exists>f\<in>set assets. endsWith f ''.jar'' \<or> endsWith f ''.zip'') \<longrightarrow>
      readAppManifest w assets =
        (Inl (Error ''No jar or zip file found in assets directory''), [])) \<and>
   ((\<exists>f\<in>set assets. endsWith f ''.jar'' \<or> endsWith f ''.zip'') \<longrightarrow>
      (\<exists>f\<in>set assets. (endsWith f ''.jar'' \<or> endsWith f ''.zip'') \<and>
         hd (snd (readAppManifest w assets)) = AdmZipOpen (path_join w (assetsDir w) f)) \<and>
      snd (readAppManifest w assets) \<noteq> [] \<and>
      fst (readAppManifest w assets) \<noteq>
        Inl (Error ''No jar or zip file found in assets directory''))"
proof (intro conjI impI)
  assume "\<not> (\<exists>f\<in>set assets. endsWith f ''.jar'' \<or> endsWith f ''.zip'')"
  then have "find (\<lambda>file. endsWith file ''.jar'') assets = None"
    and "find (\<lambda>file. endsWith file ''.zip'') assets = None"
    by (auto simp: find_None_none)
  then show "readAppManifest w assets =
        (Inl (Error ''No jar or zip file found in assets directory''), [])"
    by (rule readAppManifest_none)
next
  assume a: "\<exists>f\<in>set assets. endsWith f ''.jar'' \<or> endsWith f ''.zip''"
  then obtain f isPlugin where f: "f \<in> set assets" "endsWith f ''.jar'' \<or> endsWith f ''.zip''"
      and r: "readAppManifest w assets = read_manifest_try w (path_join w (assetsDir w) f) isPlugin"
    using readAppManifest_target[of assets w] by blast
  show "\<exists>f\<in>set assets. (endsWith f ''.jar'' \<or> endsWith f ''.zip'') \<and>
         hd (snd (readAppManifest w assets)) = AdmZipOpen (path_join w (assetsDir w) f)"
    using f r by (intro bexI[of _ f]) (simp_all add: read_manifest_try_trace)
  show "snd (readAppManifest w assets) \<noteq> []"
    using r by (simp add: read_manifest_try_trace)
  show "fst (readAppManifest w assets) \<noteq>
        Inl (Error ''No jar or zip file found in assets directory'')"
  proof
    assume "fst (readAppManifest w assets) =
        Inl (Error ''No jar or zip file found in assets directory'')"
    with r obtain s where
      "Error ''No jar or zip file found in assets directory'' =
       Error (''Failed to read manifest file: '' @ s)"
      using read_manifest_try_error by metis
    then show False by (simp add: Error_def)
  qed
qed

theorem readAppManifest_no_package_witness:
  "\<not> (\<exists>f\<in>set [''README.md'']. endsWith f ''.jar'' \<or> endsWith f ''.zip'') \<and>
   readAppManifest good_world [''README.md''] =
     (Inl (Error ''No jar or zip file found in assets directory''), []) \<and>
   (\<exists>f\<in>set [''a.jar'', ''b.jar'']. endsWith f ''.jar'' \<or> endsWith f ''.zip'') \<and>
   snd (readAppManifest good_world [''a.jar'', ''b.jar'']) \<noteq> [] \<and>
   fst (readAppManifest good_world [''a.jar'', ''b.jar'']) \<noteq>
     Inl (Error ''No jar or zip file found in assets directory'')"
proof -
  have h1: "\<not> (\<exists>f\<in>set [''README.md'']. endsWith f ''.jar'' \<or> endsWith f ''.zip'')"
    by (simp add: endsWith_def)
  have h2: "\<exists>f\<in>set [''a.jar'', ''b.jar'']. endsWith f ''.jar'' \<or> endsWith f ''.zip''"
    by (simp add: endsWith_def)
  from readAppManifest_no_package[of "[''README.md'']" good_world] h1
       readAppManifest_no_package[of "[''a.jar'', ''b.jar'']" good_world] h2
  show ?thesis by blast
qed

text \<open>
  Claim C2 as stated fails: with a .zip and a .jar both listed, extraction succeeds.
\<close>

theorem readAppManifest_both_counterexample:
  "endsWith ''plugin-1.jar'' ''.jar'' \<and> endsWith ''theme.zip'' ''.zip'' \<and>
   fst (readAppManifest good_world [''theme.zip'', ''plugin-1.jar'']) =
     Inr (Some \<lparr>requires = JStr ''2.0.0'', version = JStr ''1.2.3''\<rparr>)"
proof -
  have f: "find (\<lambda>file. endsWith file ''.jar'') [''theme.zip'', ''plugin-1.jar''] =
             Some ''plugin-1.jar''"
    by (simp add: endsWith_def)
  have "fst (read_manifest_try good_world (path_join good_world (assetsDir good_world) ''plugin-1.jar'') True) =
          Inr (Some \<lparr>requires = JStr ''2.0.0'', version = JStr ''1.2.3''\<rparr>)"
    using read_manifest_try_entry[of good_world _ plugin_archive True "Inr ''spec: ...''"]
    by (simp add: good_world_simps plugin_archive_def good_manifest_def nullish_def)
  then show ?thesis
    using readAppManifest_jar[OF f, of good_world] by (simp add: endsWith_def)
qed

subsection \<open>The release note (C3)\<close>

text \<open>
  Claim C3. For every release body, tag name, release URL and privacy flag, the
  markdown of the release note is the body (the empty string when it is null), then
  the separator line when the body is not empty, then the attribution line exactly
  when the repository is not private, whether or not the body was empty. That text is
  what is sent to the renderer and what the note carries when rendering succeeds.
\<close>

theorem getReleaseNote_markdown:
  "let body = (case rel_body rel of None \<Rightarrow> [] | Some b \<Rightarrow> b);
       md = body @ (if body \<noteq> [] then [CHR 0x0A, CHR 0x0A] @ ''---'' else []) @
            (if \<not> repo_private ri
             then [CHR 0x0A, CHR 0x0A] @ ''*Generated from ['' @ rel_tag_name rel @ '']('' @
                  rel_html_url rel @ '')*''
             else [])
   in releaseBody ri rel = md \<and>
      snd (getReleaseNote w ri rel) =
        [MarkdownRender md ''gfm'' (context_owner w @ ''/'' @ context_repo w)] \<and>
      (case fst (getReleaseNote w ri rel) of
         Inl e \<Rightarrow> markdown_render w md ''gfm'' (context_owner w @ ''/'' @ context_repo w) = Inl e
       | Inr note \<Rightarrow> note_markdown note = md)"
  by (simp add: Let_def getReleaseNote_eq releaseBody_def split: option.splits sum.splits)

theorem getReleaseNote_markdown_witness:
  "releaseBody \<lparr>repo_private = True\<rparr>
     \<lparr>rel_body = Some '''', rel_tag_name = ''v1.0'', rel_html_url = ''https://x'',
      rel_name = None, rel_prerelease = False\<rparr> = '''' \<and>
   releaseBody \<lparr>repo_private = False\<rparr>
     \<lparr>rel_body = Some ''Fixed bugs'', rel_tag_name = ''v1.0'', rel_html_url = ''https://x'',
      rel_name = None, rel_prerelease = False\<rparr> =
     ''Fixed bugs'' @ [CHR 0x0A, CHR 0x0A] @ ''---'' @ [CHR 0x0A, CHR 0x0A] @
     ''*Generated from [v1.0](https://x)*'' \<and>
   releaseBody \<lparr>repo_private = False\<rparr>
     \<lparr>rel_body = None, rel_tag_name = ''v1.0'', rel_html_url = ''https://x'',
      rel_name = None, rel_prerelease = False\<rparr> =
     [CHR 0x0A, CHR 0x0A] @ ''*Generated from [v1.0](https://x)*''"
  using getReleaseNote_markdown
          [of "\<lparr>rel_body = Some '''', rel_tag_name = ''v1.0'', rel_html_url = ''https://x'',
                rel_name = None, rel_prerelease = False\<rparr>" "\<lparr>repo_private = True\<rparr>" good_world]
        getReleaseNote_markdown
          [of "\<lparr>rel_body = Some ''Fixed bugs'', rel_tag_name = ''v1.0'',
                rel_html_url = ''https://x'', rel_name = None, rel_prerelease = False\<rparr>"
              "\<lparr>repo_private = False\<rparr>" good_world]
        getReleaseNote_markdown
          [of "\<lparr>rel_body = None, rel_tag_name = ''v1.0'',
                rel_html_url = ''https://x'', rel_name = None, rel_prerelease = False\<rparr>"
              "\<lparr>repo_private = False\<rparr>" good_world]
  by (simp add: Let_def)

subsection \<open>The manifest fields (C4, C9)\<close>

text \<open>
  Claim C4, as the code has it. When the archive opens and the manifest entry is
  present and decodes, the try block fails with "Failed to read manifest file: ..."
  when the YAML parser throws, and with the same prefix around a TypeError when the
  parsed document is undefined or null or has no \<open>spec\<close> (or a null one). In every
  other case it returns the values of \<open>spec.requires\<close> and \<open>spec.version\<close> as they are:
  \<open>undefined\<close> for an absent field, and not necessarily strings.
\<close>

theorem read_manifest_fields:
  assumes "AdmZip w targetFile = Inr z"
      and "z (if isPlugin then ''plugin.yaml'' else ''theme.yaml'') = Some (Inr yamlContent)"
  shows "case YAML_parse w yamlContent of
           Inl e \<Rightarrow>
             fst (read_manifest_try w targetFile isPlugin) =
               Inl (Error (''Failed to read manifest file: '' @ toString e))
         | Inr manifest \<Rightarrow>
             if nullish manifest \<or> nullish (property manifest ''spec'')
             then \<exists>msg. fst (read_manifest_try w targetFile isPlugin) =
                    Inl (Error (''Failed to read manifest file: '' @
                                toString (JsError ''TypeError'' msg)))
             else fst (read_manifest_try w targetFile isPlugin) =
                    Inr (Some \<lparr>requires = property (property manifest ''spec'') ''requires'',
                               version = property (property manifest ''spec'') ''version''\<rparr>)"
  using read_manifest_try_entry[OF assms] by (auto split: sum.splits)

theorem read_manifest_fields_witness:
  "AdmZip good_world ''build/libs/plugin-1.jar'' = Inr plugin_archive \<and>
   plugin_archive ''plugin.yaml'' = Some (Inr ''spec: ...'') \<and>
   fst (read_manifest_try good_world ''build/libs/plugin-1.jar'' True) =
     Inr (Some \<lparr>requires = JStr ''2.0.0'', version = JStr ''1.2.3''\<rparr>) \<and>
   fst (read_manifest_try bad_yaml_world ''build/libs/plugin-1.jar'' True) =
     Inl (Error ''Failed to read manifest file: YAMLParseError: bad indentation'') \<and>
   (\<exists>msg. fst (read_manifest_try empty_yaml_world ''build/libs/plugin-1.jar'' True) =
     Inl (Error (''Failed to read manifest file: '' @ toString (JsError ''TypeError'' msg))))"
proof -
  have a: "AdmZip good_world ''build/libs/plugin-1.jar'' = Inr plugin_archive"
    by (simp add: good_world_simps)
  have b: "AdmZip bad_yaml_world ''build/libs/plugin-1.jar'' = Inr plugin_archive"
    by (simp add: bad_yaml_world_def good_world_simps)
  have c: "AdmZip empty_yaml_world ''build/libs/plugin-1.jar'' = Inr plugin_archive"
    by (simp add: empty_yaml_world_def good_world_simps)
  have e: "plugin_archive (if True then ''plugin.yaml'' else ''theme.yaml'') = Some (Inr ''spec: ...'')"
    by (simp add: plugin_archive_def)
  from read_manifest_fields[OF a e] read_manifest_fields[OF b e] read_manifest_fields[OF c e] a e
  show ?thesis
    by (simp add: good_world_simps bad_yaml_world_def empty_yaml_world_def good_manifest_def
          nullish_def toString_def)
qed

text \<open>
  Claim C4 as stated fails: a manifest whose \<open>spec\<close> has no \<open>requires\<close> is not rejected;
  the reader returns a manifest whose \<open>requires\<close> is \<open>undefined\<close>.
\<close>

theorem read_manifest_absent_field_counterexample:
  "AdmZip no_requires_world ''build/libs/plugin-1.jar'' = Inr plugin_archive \<and>
   plugin_archive ''plugin.yaml'' = Some (Inr ''spec: ...'') \<and>
   YAML_parse no_requires_world ''spec: ...'' = Inr manifest_without_requires \<and>
   property (property manifest_without_requires ''spec'') ''requires'' = JUndefined \<and>
   readAppManifest no_requires_world [''plugin-1.jar''] =
     (Inr (Some \<lparr>requires = JUndefined, version = JStr ''1.2.3''\<rparr>),
      [AdmZipOpen ''build/libs/plugin-1.jar'', ZipGetEntry ''plugin.yaml''])"
proof -
  have f: "find (\<lambda>file. endsWith file ''.jar'') [''plugin-1.jar''] = Some ''plugin-1.jar''"
    by (simp add: endsWith_def)
  have a: "AdmZip no_requires_world ''build/libs/plugin-1.jar'' = Inr plugin_archive"
    by (simp add: no_requires_world_def good_world_simps)
  have e: "plugin_archive (if True then ''plugin.yaml'' else ''theme.yaml'') = Some (Inr ''spec: ...'')"
    by (simp add: plugin_archive_def)
  have p: "path_join no_requires_world (assetsDir no_requires_world) ''plugin-1.jar'' =
             ''build/libs/plugin-1.jar''"
    by (simp add: no_requires_world_def good_world_simps)
  have "fst (read_manifest_try no_requires_world ''build/libs/plugin-1.jar'' True) =
          Inr (Some \<lparr>requires = JUndefined, version = JStr ''1.2.3''\<rparr>)"
    using read_manifest_try_entry[OF a e]
    by (simp add: no_requires_world_def manifest_without_requires_def nullish_def)
  moreover have "snd (read_manifest_try no_requires_world ''build/libs/plugin-1.jar'' True) =
          [AdmZipOpen ''build/libs/plugin-1.jar'', ZipGetEntry ''plugin.yaml'']"
    using a by (simp add: read_manifest_try_trace)
  ultimately have "read_manifest_try no_requires_world ''build/libs/plugin-1.jar'' True =
     (Inr (Some \<lparr>requires = JUndefined, version = JStr ''1.2.3''\<rparr>),
      [AdmZipOpen ''build/libs/plugin-1.jar'', ZipGetEntry ''plugin.yaml''])"
    by (simp add: prod_eq_iff)
  then show ?thesis
    using readAppManifest_jar[OF f, of no_requires_world] a e p
    by (simp add: no_requires_world_def manifest_without_requires_def)
qed



subsection \<open>The release request (C7)\<close>

text \<open>
  Claim C7. The request \<open>createAppRelease\<close> posts for a manifest carries, in its release
  descriptor, the release title as display name, the release's prerelease flag, the
  manifest's \<open>requires\<close> and \<open>version\<close> unchanged and \<open>draft\<close> false, and in its notes
  descriptor the HTML, the raw markdown and the type tag "MARKDOWN". In a run, the
  request posted carries these from the fetched release, the rendered note, the
  assembled markdown and the manifest read from the listing.
\<close>

theorem release_request_body:
  "(\<exists>body. createAppRelease w release html markdown (Some m) =
             (apiClient_post_release w (release_url w) body, [PostRelease (release_url w) body]) \<and>
           displayName (release_spec (req_release body)) = rel_name release \<and>
           preRelease (release_spec (req_release body)) = rel_prerelease release \<and>
           spec_requires (release_spec (req_release body)) = requires m \<and>
           spec_version (release_spec (req_release body)) = version m \<and>
           draft (release_spec (req_release body)) = False \<and>
           notes_html (req_notes body) = html \<and>
           raw (req_notes body) = markdown \<and>
           rawType (req_notes body) = ''MARKDOWN'') \<and>
   (\<forall>url body. PostRelease url body \<in> set (snd (main w)) \<longrightarrow>
      (\<exists>repoInfo releaseInfo rendered assets manifest.
         repos_get w (context_owner w) (context_repo w) = Inr repoInfo \<and>
         repos_getRelease w (context_owner w) (context_repo w) (releaseId w) = Inr releaseInfo \<and>
         markdown_render w (releaseBody repoInfo releaseInfo) ''gfm''
           (context_owner w @ ''/'' @ context_repo w) = Inr rendered \<and>
         fs_readdirSync w (assetsDir w) = Inr assets \<and>
         fst (readAppManifest w assets) = Inr (Some manifest) \<and>
         displayName (release_spec (req_release body)) = rel_name releaseInfo \<and>
         preRelease (release_spec (req_release body)) = rel_prerelease releaseInfo \<and>
         spec_requires (release_spec (req_release body)) = requires manifest \<and>
         spec_version (release_spec (req_release body)) = version manifest \<and>
         draft (release_spec (req_release body)) = False \<and>
         notes_html (req_notes body) = rendered \<and>
         raw (req_notes body) = releaseBody repoInfo releaseInfo \<and>
         rawType (req_notes body) = ''MARKDOWN''))"
proof (intro conjI allI impI)
  show "\<exists>body. createAppRelease w release html markdown (Some m) =
             (apiClient_post_release w (release_url w) body, [PostRelease (release_url w) body]) \<and>
           displayName (release_spec (req_release body)) = rel_name release \<and>
           preRelease (release_spec (req_release body)) = rel_prerelease release \<and>
           spec_requires (release_spec (req_release body)) = requires m \<and>
           spec_version (release_spec (req_release body)) = version m \<and>
           draft (release_spec (req_release body)) = False \<and>
           notes_html (req_notes body) = html \<and>
           raw (req_notes body) = markdown \<and>
           rawType (req_notes body) = ''MARKDOWN''"
    by (intro exI[of _ "release_request release html markdown m"])
       (simp add: createAppRelease_Some release_request_fields)
next
  fix url body
  assume "PostRelease url body \<in> set (snd (main w))"
  then have "PostRelease url body \<in> set (snd (run w))" by (simp add: main_trace)
  from run_release_posted[OF this]
  obtain repoInfo releaseInfo rendered assets manifest where
      "repos_get w (context_owner w) (context_repo w) = Inr repoInfo"
      "repos_getRelease w (context_owner w) (context_repo w) (releaseId w) = Inr releaseInfo"
      "markdown_render w (releaseBody repoInfo releaseInfo) ''gfm''
           (context_owner w @ ''/'' @ context_repo w) = Inr rendered"
      "fs_readdirSync w (assetsDir w) = Inr assets"
      "fst (readAppManifest w assets) = Inr (Some manifest)"
      "body = release_request releaseInfo rendered (releaseBody repoInfo releaseInfo) manifest"
    by blast
  then show "\<exists>repoInfo releaseInfo rendered assets manifest.
         repos_get w (context_owner w) (context_repo w) = Inr repoInfo \<and>
         repos_getRelease w (context_owner w) (context_repo w) (releaseId w) = Inr releaseInfo \<and>
         markdown_render w (releaseBody repoInfo releaseInfo) ''gfm''
           (context_owner w @ ''/'' @ context_repo w) = Inr rendered \<and>
         fs_readdirSync w (assetsDir w) = Inr assets \<and>
         fst (readAppManifest w assets) = Inr (Some manifest) \<and>
         displayName (release_spec (req_release body)) = rel_name releaseInfo \<and>
         preRelease (release_spec (req_release body)) = rel_prerelease releaseInfo \<and>
         spec_requires (release_spec (req_release body)) = requires manifest \<and>
         spec_version (release_spec (req_release body)) = version manifest \<and>
         draft (release_spec (req_release body)) = False \<and>
         notes_html (req_notes body) = rendered \<and>
         raw (req_notes body) = releaseBody repoInfo releaseInfo \<and>
         rawType (req_notes body) = ''MARKDOWN''"
    by (intro exI[of _ repoInfo] exI[of _ releaseInfo] exI[of _ rendered] exI[of _ assets]
          exI[of _ manifest]) (simp add: release_request_fields)
qed

theorem release_request_body_witness:
  "PostRelease (release_url good_world) good_body \<in> set (snd (main good_world)) \<and>
   displayName (release_spec (req_release good_body)) = Some ''One'' \<and>
   preRelease (release_spec (req_release good_body)) = True \<and>
   spec_requires (release_spec (req_release good_body)) = JStr ''2.0.0'' \<and>
   spec_version (release_spec (req_release good_body)) = JStr ''1.2.3'' \<and>
   draft (release_spec (req_release good_body)) = False \<and>
   rawType (req_notes good_body) = ''MARKDOWN''"
proof -
  have m: "PostRelease (release_url good_world) good_body \<in> set (snd (main good_world))"
    by (simp add: main_trace good_world_run release_url_def good_world_simps)
  from release_request_body[where w = good_world, THEN conjunct2, rule_format, OF m]
  obtain repoInfo releaseInfo rendered assets manifest where
    f: "repos_getRelease good_world (context_owner good_world) (context_repo good_world)
         (releaseId good_world) = Inr releaseInfo"
      "fs_readdirSync good_world (assetsDir good_world) = Inr assets"
      "fst (readAppManifest good_world assets) = Inr (Some manifest)"
      "displayName (release_spec (req_release good_body)) = rel_name releaseInfo"
      "preRelease (release_spec (req_release good_body)) = rel_prerelease releaseInfo"
      "spec_requires (release_spec (req_release good_body)) = requires manifest"
      "spec_version (release_spec (req_release good_body)) = version manifest"
      "draft (release_spec (req_release good_body)) = False"
      "rawType (req_notes good_body) = ''MARKDOWN''"
    by blast
  from f(2) have a: "assets = [''README.md'', ''plugin-1.jar'']"
    by (simp add: good_world_simps)
  from f(3) a have "manifest = \<lparr>requires = JStr ''2.0.0'', version = JStr ''1.2.3''\<rparr>"
    by (simp add: good_world_manifest)
  moreover from f(1) have "rel_name releaseInfo = Some ''One''" "rel_prerelease releaseInfo = True"
    by (auto simp: good_world_simps)
  ultimately show ?thesis using m f by simp
qed

subsection \<open>The order of the run (C8, C10)\<close>

text \<open>
  Claim C8. When the release-id input is empty (an absent input reads as the empty
  string), the run fails at once with the error "Release ID not found" and has made no
  call at all: no repository fetch, no release fetch, no markdown render, no store
  call.
\<close>

theorem run_missing_release_id:
  "releaseId w = [] \<Longrightarrow>
     main w = (Failed (failed_prefix @ ''Release ID not found''), []) \<and>
     filter is_network_call (snd (main w)) = []"
  by (simp add: main_def run_def throw_def Error_def)

theorem run_missing_release_id_witness:
  "releaseId no_release_id_world = [] \<and>
   main no_release_id_world = (Failed (failed_prefix @ ''Release ID not found''), []) \<and>
   filter is_network_call (snd (main no_release_id_world)) = []"
proof -
  have h: "releaseId no_release_id_world = []"
    by (simp add: no_release_id_world_def)
  from run_missing_release_id[OF h] h show ?thesis by simp
qed

text \<open>
  Claim C10, as the code has it. When the assets directory does not exist or its
  listing is empty, the run fails without opening an archive and without any call to
  the store. The directory is listed only after the repository fetch, the release
  fetch and the markdown render: when the release id is present and those three
  succeed, the failure message is the one naming the directory.
\<close>

theorem missing_assets_fail:
  assumes "\<not> fs_existsSync w (assetsDir w) \<or> fs_readdirSync w (assetsDir w) = Inr []"
  shows "(\<exists>msg. fst (main w) = Failed msg) \<and>
     filter is_archive_access (snd (main w)) = [] \<and>
     filter is_store_call (snd (main w)) = [] \<and>
     (\<forall>repoInfo releaseInfo html.
        releaseId w \<noteq> [] \<and>
        repos_get w (context_owner w) (context_repo w) = Inr repoInfo \<and>
        repos_getRelease w (context_owner w) (context_repo w) (releaseId w) = Inr releaseInfo \<and>
        markdown_render w (releaseBody repoInfo releaseInfo) ''gfm''
          (context_owner w @ ''/'' @ context_repo w) = Inr html \<longrightarrow>
        fst (main w) =
          Failed (failed_prefix @
                  (if fs_existsSync w (assetsDir w) then ''Assets directory is empty: ''
                   else ''Assets directory does not exist: '') @ assetsDir w))"
  using assms unfolding main_trace main_outcome run_eq
  by (auto simp: calls_before_manifest_def Error_def split: if_splits sum.splits option.splits)

theorem missing_assets_fail_witness:
  "\<not> fs_existsSync no_dir_world (assetsDir no_dir_world) \<and>
   fst (main no_dir_world) =
     Failed (failed_prefix @ ''Assets directory does not exist: build/libs'') \<and>
   filter is_archive_access (snd (main no_dir_world)) = [] \<and>
   filter is_store_call (snd (main no_dir_world)) = [] \<and>
   fs_readdirSync empty_dir_world (assetsDir empty_dir_world) = Inr [] \<and>
   fst (main empty_dir_world) = Failed (failed_prefix @ ''Assets directory is empty: build/libs'')"
proof -
  have h1: "\<not> fs_existsSync no_dir_world (assetsDir no_dir_world) \<or>
            fs_readdirSync no_dir_world (assetsDir no_dir_world) = Inr []"
    by (simp add: no_dir_world_def)
  have h2: "\<not> fs_existsSync empty_dir_world (assetsDir empty_dir_world) \<or>
            fs_readdirSync empty_dir_world (assetsDir empty_dir_world) = Inr []"
    by (simp add: empty_dir_world_def)
  have g1: "releaseId no_dir_world \<noteq> [] \<and>
        repos_get no_dir_world (context_owner no_dir_world) (context_repo no_dir_world) =
          Inr \<lparr>repo_private = False\<rparr> \<and>
        repos_getRelease no_dir_world (context_owner no_dir_world) (context_repo no_dir_world)
          (releaseId no_dir_world) =
          Inr \<lparr>rel_body = Some ''Fixed bugs'', rel_tag_name = ''v1.0'',
               rel_html_url = ''https://x'', rel_name = Some ''One'', rel_prerelease = True\<rparr> \<and>
        (\<exists>html. markdown_render no_dir_world
          (releaseBody \<lparr>repo_private = False\<rparr>
             \<lparr>rel_body = Some ''Fixed bugs'', rel_tag_name = ''v1.0'',
               rel_html_url = ''https://x'', rel_name = Some ''One'', rel_prerelease = True\<rparr>)
          ''gfm'' (context_owner no_dir_world @ ''/'' @ context_repo no_dir_world) = Inr html)"
    by (simp add: no_dir_world_def good_world_simps)
  have g2: "releaseId empty_dir_world \<noteq> [] \<and>
        repos_get empty_dir_world (context_owner empty_dir_world) (context_repo empty_dir_world) =
          Inr \<lparr>repo_private = False\<rparr> \<and>
        repos_getRelease empty_dir_world (context_owner empty_dir_world)
          (context_repo empty_dir_world) (releaseId empty_dir_world) =
          Inr \<lparr>rel_body = Some ''Fixed bugs'', rel_tag_name = ''v1.0'',
               rel_html_url = ''https://x'', rel_name = Some ''One'', rel_prerelease = True\<rparr> \<and>
        (\<exists>html. markdown_render empty_dir_world
          (releaseBody \<lparr>repo_private = False\<rparr>
             \<lparr>rel_body = Some ''Fixed bugs'', rel_tag_name = ''v1.0'',
               rel_html_url = ''https://x'', rel_name = Some ''One'', rel_prerelease = True\<rparr>)
          ''gfm'' (context_owner empty_dir_world @ ''/'' @ context_repo empty_dir_world) = Inr html)"
    by (simp add: empty_dir_world_def good_world_simps)
  have e1: "\<not> fs_existsSync no_dir_world (assetsDir no_dir_world)"
    by (simp add: no_dir_world_def)
  have e2: "fs_existsSync empty_dir_world (assetsDir empty_dir_world)"
       "fs_readdirSync empty_dir_world (assetsDir empty_dir_world) = Inr []"
    by (simp_all add: empty_dir_world_def good_world_simps)
  have d: "assetsDir no_dir_world = ''build/libs''" "assetsDir empty_dir_world = ''build/libs''"
    by (simp_all add: no_dir_world_def empty_dir_world_def good_world_simps)
  from missing_assets_fail[OF h1] g1 e1 d
  have "fst (main no_dir_world) =
     Failed (failed_prefix @ ''Assets directory does not exist: build/libs'') \<and>
   filter is_archive_access (snd (main no_dir_world)) = [] \<and>
   filter is_store_call (snd (main no_dir_world)) = []"
    by (elim conjE exE) (simp)
  moreover from missing_assets_fail[OF h2] g2 e2 d
  have "fst (main empty_dir_world) = Failed (failed_prefix @ ''Assets directory is empty: build/libs'')"
    by (elim conjE exE) (simp)
  ultimately show ?thesis using e1 e2 by simp
qed

text \<open>
  Claim C10 as stated fails: with the directory missing and the repository fetch
  rejected, the run fails with the fetch's message, which does not name the directory.
\<close>

theorem missing_assets_other_error_counterexample:
  "\<not> fs_existsSync bad_token_no_dir_world (assetsDir bad_token_no_dir_world) \<and>
   main bad_token_no_dir_world =
     (Failed (failed_prefix @ ''Bad credentials''), [ReposGet ''halo'' ''plugin-foo'']) \<and>
   \<not> sublist (assetsDir bad_token_no_dir_world) (failed_prefix @ ''Bad credentials'')"
proof -
  have "run bad_token_no_dir_world =
          (Inl (JsError ''HttpError'' ''Bad credentials''), [ReposGet ''halo'' ''plugin-foo''])"
    unfolding run_eq
    by (simp add: bad_token_no_dir_world_def no_dir_world_def good_world_simps)
  moreover have "assetsDir bad_token_no_dir_world = ''build/libs''"
    by (simp add: bad_token_no_dir_world_def no_dir_world_def good_world_simps)
  moreover have "\<not> fs_existsSync bad_token_no_dir_world ''build/libs''"
    by (simp add: bad_token_no_dir_world_def no_dir_world_def)
  moreover have "\<not> sublist ''build/libs'' (failed_prefix @ ''Bad credentials'')"
    by (simp add: failed_prefix_def sublist_code)
  ultimately show ?thesis by (simp add: main_def)
qed

subsection \<open>The uploads (C5, C6)\<close>

text \<open>
  Claim C5. When the run completes, the upload requests it sent are, in order, one
  for each entry of the directory listing, each carrying the name the store returned
  for the created release; an entry is uploaded as many times as it is listed, so
  once in a listing without repetition. Every one of these uploads was carried
  through: the file was there when it was checked, and the store answered the request
  with success. The archive the manifest was read from is one of the entries, and is
  uploaded too.
\<close>

theorem all_assets_uploaded:
  assumes "fst (main w) = Completed msg"
  shows "\<exists>assets appRelease body.
     fs_readdirSync w (assetsDir w) = Inr assets \<and>
     PostRelease (release_url w) body \<in> set (snd (main w)) \<and>
     apiClient_post_release w (release_url w) body = Inr appRelease \<and>
     upload_posts (snd (main w)) =
       map (\<lambda>asset. (upload_url,
              \<lparr>form_releaseName = appRelease_metadata_name appRelease,
               form_file = assetsDir w @ ''/'' @ asset\<rparr>)) assets \<and>
     (\<forall>asset\<in>set assets.
        count_list (upload_posts (snd (main w)))
          (upload_url, \<lparr>form_releaseName = appRelease_metadata_name appRelease,
                        form_file = assetsDir w @ ''/'' @ asset\<rparr>) =
        count_list assets asset) \<and>
     (distinct assets \<longrightarrow> distinct (upload_posts (snd (main w)))) \<and>
     (\<forall>i<length assets.
        fs_existsSync w (assetsDir w @ ''/'' @ assets ! i) \<and>
        apiClient_post_upload w i upload_url
          \<lparr>form_releaseName = appRelease_metadata_name appRelease,
           form_file = assetsDir w @ ''/'' @ assets ! i\<rparr> = Inr ()) \<and>
     (\<exists>f\<in>set assets.
        AdmZipOpen (path_join w (assetsDir w) f) \<in> set (snd (main w)) \<and>
        (upload_url, \<lparr>form_releaseName = appRelease_metadata_name appRelease,
                      form_file = assetsDir w @ ''/'' @ f\<rparr>) \<in> set (upload_posts (snd (main w))))"
proof -
  from assms obtain u where "fst (run w) = Inr u"
    by (auto simp: main_outcome split: sum.splits)
  from run_fulfilled[OF this]
  obtain repoInfo releaseInfo html assets m appRelease where
      l: "fs_readdirSync w (assetsDir w) = Inr assets"
    and r: "fst (readAppManifest w assets) = Inr (Some m)"
    and p: "apiClient_post_release w (release_url w)
       (release_request releaseInfo html (releaseBody repoInfo releaseInfo) m) = Inr appRelease"
    and up: "fst (uploadAssets w (appRelease_metadata_name appRelease) assets) = Inr ()"
    and t: "snd (run w) =
       calls_before_manifest w repoInfo releaseInfo @ snd (readAppManifest w assets) @
       [PostRelease (release_url w)
          (release_request releaseInfo html (releaseBody repoInfo releaseInfo) m)] @
       snd (uploadAssets w (appRelease_metadata_name appRelease) assets)"
    by blast
  let ?form = "\<lambda>asset. (upload_url,
              \<lparr>form_releaseName = appRelease_metadata_name appRelease,
               form_file = assetsDir w @ ''/'' @ asset\<rparr>)"
  from uploadAssets_fulfilled[OF up]
  have "filter (\<lambda>asset. fs_existsSync w (assetsDir w @ ''/'' @ asset)) assets = assets"
    by simp
  with t have posts: "upload_posts (snd (main w)) = map ?form assets"
    by (simp add: main_trace upload_posts_append upload_posts_uploadAssets)
  have counts: "\<forall>asset\<in>set assets. count_list (upload_posts (snd (main w))) (?form asset) =
        count_list assets asset"
    unfolding posts using count_list_map_conv[OF inj_upload_form] by fast
  have dist: "distinct assets \<longrightarrow> distinct (upload_posts (snd (main w)))"
    unfolding posts by (simp add: distinct_map inj_on_def)
  have answered: "\<forall>i<length assets.
        fs_existsSync w (assetsDir w @ ''/'' @ assets ! i) \<and>
        apiClient_post_upload w i upload_url
          \<lparr>form_releaseName = appRelease_metadata_name appRelease,
           form_file = assetsDir w @ ''/'' @ assets ! i\<rparr> = Inr ()"
    using uploadAssets_fulfilled_answers[OF up] by blast
  from readAppManifest_success_opens[OF r]
  obtain f where f: "f \<in> set assets"
      "AdmZipOpen (path_join w (assetsDir w) f) \<in> set (snd (readAppManifest w assets))"
    by blast
  then have arch: "\<exists>f\<in>set assets.
        AdmZipOpen (path_join w (assetsDir w) f) \<in> set (snd (main w)) \<and>
        ?form f \<in> set (upload_posts (snd (main w)))"
    unfolding posts by (intro bexI[of _ f]) (simp_all add: main_trace t)
  have "PostRelease (release_url w)
          (release_request releaseInfo html (releaseBody repoInfo releaseInfo) m) \<in> set (snd (main w))"
    by (simp add: main_trace t)
  with l p posts counts dist answered arch show ?thesis by blast
qed

theorem all_assets_uploaded_witness:
  "fst (main good_world) = Completed completed_message \<and>
   upload_posts (snd (main good_world)) =
     [(upload_url, \<lparr>form_releaseName = ''app-release-x7'', form_file = ''build/libs/README.md''\<rparr>),
      (upload_url, \<lparr>form_releaseName = ''app-release-x7'',
                    form_file = ''build/libs/plugin-1.jar''\<rparr>)] \<and>
   apiClient_post_upload good_world 0 upload_url
     \<lparr>form_releaseName = ''app-release-x7'', form_file = ''build/libs/README.md''\<rparr> = Inr () \<and>
   apiClient_post_upload good_world 1 upload_url
     \<lparr>form_releaseName = ''app-release-x7'', form_file = ''build/libs/plugin-1.jar''\<rparr> =
     Inr () \<and>
   AdmZipOpen ''build/libs/plugin-1.jar'' \<in> set (snd (main good_world))"
proof -
  have h: "fst (main good_world) = Completed completed_message"
    by (simp add: main_outcome good_world_run)
  from all_assets_uploaded[OF h]
  obtain assets appRelease body where
      l: "fs_readdirSync good_world (assetsDir good_world) = Inr assets"
    and p: "apiClient_post_release good_world (release_url good_world) body = Inr appRelease"
    and u: "upload_posts (snd (main good_world)) =
       map (\<lambda>asset. (upload_url,
              \<lparr>form_releaseName = appRelease_metadata_name appRelease,
               form_file = assetsDir good_world @ ''/'' @ asset\<rparr>)) assets"
    and ans: "\<forall>i<length assets.
        fs_existsSync good_world (assetsDir good_world @ ''/'' @ assets ! i) \<and>
        apiClient_post_upload good_world i upload_url
          \<lparr>form_releaseName = appRelease_metadata_name appRelease,
           form_file = assetsDir good_world @ ''/'' @ assets ! i\<rparr> = Inr ()"
    by blast
  from l have a: "assets = [''README.md'', ''plugin-1.jar'']"
    by (simp add: good_world_simps)
  from p have n: "appRelease_metadata_name appRelease = ''app-release-x7''"
    by (auto simp: good_world_simps)
  from a n u have posts: "upload_posts (snd (main good_world)) =
     [(upload_url, \<lparr>form_releaseName = ''app-release-x7'', form_file = ''build/libs/README.md''\<rparr>),
      (upload_url, \<lparr>form_releaseName = ''app-release-x7'',
                    form_file = ''build/libs/plugin-1.jar''\<rparr>)]"
    by (simp add: good_world_simps)
  from a have i0: "0 < length assets" and i1: "1 < length assets"
    by simp_all
  from ans i0 have "apiClient_post_upload good_world 0 upload_url
          \<lparr>form_releaseName = appRelease_metadata_name appRelease,
           form_file = assetsDir good_world @ ''/'' @ assets ! 0\<rparr> = Inr ()"
    by blast
  with a n have a0: "apiClient_post_upload good_world 0 upload_url
     \<lparr>form_releaseName = ''app-release-x7'', form_file = ''build/libs/README.md''\<rparr> = Inr ()"
    by (simp add: good_world_simps(2))
  from ans i1 have "apiClient_post_upload good_world 1 upload_url
          \<lparr>form_releaseName = appRelease_metadata_name appRelease,
           form_file = assetsDir good_world @ ''/'' @ assets ! 1\<rparr> = Inr ()"
    by blast
  with a n have a1: "apiClient_post_upload good_world 1 upload_url
     \<lparr>form_releaseName = ''app-release-x7'', form_file = ''build/libs/plugin-1.jar''\<rparr> =
     Inr ()"
    by (simp add: good_world_simps(2))
  have arch: "AdmZipOpen ''build/libs/plugin-1.jar'' \<in> set (snd (main good_world))"
    by (simp add: main_trace good_world_run)
  from h posts a0 a1 arch show ?thesis by (intro conjI)
qed



end
